theory Spec2Isabelle
  imports Main
begin

section \<open>The Dolphin instance manager (src/main/dolphinManager.ts)\<close>

subsection \<open>Data model\<close>

text \<open>The use type is the string union \<^verbatim>\<open>"playback" | "spectate" | "config" | "netplay"\<close>.\<close>

datatype DolphinUseType = Playback | Spectate | Config | Netplay

text \<open>
  Modelled from the spec: \<open>DolphinType\<close> is imported from \<^verbatim>\<open>common/dolphin\<close>, which is not
  among the sources. The spec gives the launch variant two members, netplay and
  playback; they are the two the manager names, \<^verbatim>\<open>DolphinType.NETPLAY\<close> and
  \<^verbatim>\<open>DolphinType.PLAYBACK\<close>.
\<close>

datatype DolphinType = NETPLAY | PLAYBACK

fun useTypeName :: "DolphinUseType \<Rightarrow> string" where
  "useTypeName Playback = ''playback''"
| "useTypeName Spectate = ''spectate''"
| "useTypeName Config = ''config''"
| "useTypeName Netplay = ''netplay''"

text \<open>The payload interfaces \<open>ReplayQueueItem\<close> and \<open>ReplayCommunication\<close>.\<close>

datatype ReplayMode = ModeNormal | ModeMirror | ModeQueue

datatype RollbackDisplayMethod = DisplayOff | DisplayNormal | DisplayVisible

record ReplayQueueItem =
  itemPath :: string
  itemStartFrame :: "int option"
  itemEndFrame :: "int option"
  gameStartAt :: "string option"
  gameStation :: "string option"

record ReplayCommunication =
  mode :: ReplayMode
  replay :: "string option"
  startFrame :: "int option"
  endFrame :: "int option"
  commandId :: "string option"
  outputOverlayFiles :: "bool option"
  isRealTimeMode :: "bool option"
  shouldResync :: "bool option"
  rollbackDisplayMethod :: "RollbackDisplayMethod option"
  queue :: "ReplayQueueItem list option"

text \<open>
  \<open>DolphinInstance\<close>: the child process is a handle, the position of the process in the
  list of processes spawned so far. \<open>DolphinInstances\<close> is the manager's registry; a slot
  that is \<open>null\<close> is \<open>None\<close>.
\<close>

record DolphinInstance =
  dolphinUseType :: DolphinUseType
  index :: "int option"
  dolphin :: "nat option"
  commFilePath :: "string option"

record DolphinInstances =
  playback :: "DolphinInstance option"
  spectate :: "DolphinInstance list option"
  netplay :: "DolphinInstance option"
  configNetplay :: "DolphinInstance option"
  configPlayback :: "DolphinInstance option"

text \<open>
  What a rejected promise carries. \<open>Error msg\<close> is \<^verbatim>\<open>throw Error(msg)\<close> of the source;
  \<open>ENOENT p\<close> is the rejection of \<^verbatim>\<open>fs.unlink\<close> on a path that does not exist;
  \<open>ERR_INVALID_ARG_TYPE\<close> is the rejection of \<^verbatim>\<open>fs.writeFile\<close> on data that is not a
  string where the runtime does not coerce it; \<open>TypeError msg\<close> is a type error thrown
  by the runtime or a library.
\<close>

datatype error = Error string | ENOENT string | ERR_INVALID_ARG_TYPE | TypeError string

text \<open>
  The listeners the manager registers with \<^verbatim>\<open>dolphin.on("close", ...)\<close>, each with the
  variables its closure captures: the comm file path, the spectate index, the
  name of the configuration slot.
\<close>

datatype close_listener =
    PlaybackClose string
  | SpectateClose string "int option"
  | NetplayClose
  | ConfigClose string

record process =
  exe :: string
  params :: "string list"
  closeListeners :: "close_listener list"

text \<open>
  The state the manager acts on: its registry, the files of the temporary
  directory (path to contents), the processes spawned so far and the number of
  random identifiers drawn.
\<close>

record state =
  dolphinInstances :: DolphinInstances
  files :: "string \<rightharpoonup> string"
  processes :: "process list"
  randomDraws :: nat

text \<open>
  What the manager reads from outside and does not change: the stored setting
  \<^verbatim>\<open>settings.isoPath\<close>, \<^verbatim>\<open>app.getPath("temp")\<close>, the hexadecimal string of the n-th
  \<^verbatim>\<open>randomBytes(12)\<close>, the outcome of \<^verbatim>\<open>findDolphinExecutable\<close> (of \<^verbatim>\<open>common/dolphin\<close>)
  for each Dolphin type, \<^verbatim>\<open>JSON.stringify\<close> on a payload, whether \<^verbatim>\<open>fs.writeFile\<close>
  coerces data that is not a string to one (Node before 14 writes the text
  \<^verbatim>\<open>undefined\<close>; later versions reject the call), and the input/output error
  \<^verbatim>\<open>fs.writeFile\<close> meets at a path, if any (the temporary directory is missing or
  not writable, the disk is full).
\<close>

record env =
  isoPath :: "string option"
  tempDir :: string
  randomHex :: "nat \<Rightarrow> string"
  findDolphinExecutable :: "DolphinType \<Rightarrow> error + string"
  JSON_stringify :: "ReplayCommunication \<Rightarrow> string"
  writeFileCoerces :: bool
  writeFileError :: "string \<Rightarrow> error option"

subsection \<open>The file system and the process table\<close>

text \<open>
  \<^verbatim>\<open>fs.writeFile(path, data)\<close> creates or overwrites the file, or rejects with the
  input/output error it meets and leaves the files alone (\<open>storeFile\<close>).
  \<^verbatim>\<open>JSON.stringify(undefined)\<close> is \<^verbatim>\<open>undefined\<close>, which is \<open>None\<close> here; the data is looked
  at before the file is.
\<close>

definition storeFile :: "env \<Rightarrow> string \<Rightarrow> string \<Rightarrow> state \<Rightarrow> (error + unit) \<times> state" where
  "storeFile e p content s =
     (case writeFileError e p of
        Some err \<Rightarrow> (Inl err, s)
      | None \<Rightarrow> (Inr (), s\<lparr>files := (files s)(p \<mapsto> content)\<rparr>))"

definition writeFile :: "env \<Rightarrow> string \<Rightarrow> string option \<Rightarrow> state \<Rightarrow> (error + unit) \<times> state" where
  "writeFile e p d s =
     (case d of
        Some content \<Rightarrow> storeFile e p content s
      | None \<Rightarrow>
          if writeFileCoerces e then storeFile e p ''undefined'' s
          else (Inl ERR_INVALID_ARG_TYPE, s))"

text \<open>\<^verbatim>\<open>fs.unlink(path)\<close> removes the file and rejects when there is none.\<close>

definition unlink :: "string \<Rightarrow> state \<Rightarrow> (error + unit) \<times> state" where
  "unlink p s =
     (case files s p of
        None \<Rightarrow> (Inl (ENOENT p), s)
      | Some content \<Rightarrow> (Inr (), s\<lparr>files := (files s)(p := None)\<rparr>))"

text \<open>\<^verbatim>\<open>spawn(path, params)\<close> starts a process and returns its handle.\<close>

definition spawn :: "string \<Rightarrow> string list \<Rightarrow> state \<Rightarrow> nat \<times> state" where
  "spawn dolphinPath ps s =
     (length (processes s),
      s\<lparr>processes := processes s @ [\<lparr>exe = dolphinPath, params = ps, closeListeners = []\<rparr>]\<rparr>)"

text \<open>\<^verbatim>\<open>dolphin.on("close", listener)\<close> appends the listener to the handle's listeners.\<close>

definition on_close :: "nat \<Rightarrow> close_listener \<Rightarrow> state \<Rightarrow> state" where
  "on_close h l s =
     s\<lparr>processes := map (\<lambda>(k, p). if k = h then p\<lparr>closeListeners := closeListeners p @ [l]\<rparr> else p)
                         (enumerate 0 (processes s))\<rparr>"

subsection \<open>The functions of the manager\<close>

text \<open>
  \<^verbatim>\<open>generateCommunicationFilePath\<close>: \<^verbatim>\<open>path.join(tmpDir, commFileName)\<close> is written for a
  temporary directory in normal form on a POSIX system.
\<close>

definition generateCommunicationFilePath :: "env \<Rightarrow> DolphinUseType \<Rightarrow> state \<Rightarrow> string \<times> state" where
  "generateCommunicationFilePath e useType s =
     (let tmpDir = tempDir e;
          uniqueId = randomHex e (randomDraws s);
          commFileName = ''slippi-'' @ useTypeName useType @ ''-'' @ uniqueId @ ''.txt'';
          commFileFullPath = tmpDir @ ''/'' @ commFileName
      in (commFileFullPath, s\<lparr>randomDraws := Suc (randomDraws s)\<rparr>))"

text \<open>
  \<^verbatim>\<open>startDolphin\<close>: a string is truthy when it is not empty, an array always, and an
  omitted argument is \<open>None\<close>. A rejection of \<^verbatim>\<open>findDolphinExecutable\<close> is passed on.
\<close>

definition startDolphin ::
  "env \<Rightarrow> DolphinType \<Rightarrow> string option \<Rightarrow> string list option \<Rightarrow> state \<Rightarrow> (error + nat) \<times> state" where
  "startDolphin e dolphinType commFile additionalParams s =
     (case findDolphinExecutable e dolphinType of
        Inl err \<Rightarrow> (Inl err, s)
      | Inr dolphinPath \<Rightarrow>
          (let ps = (case commFile of
                       None \<Rightarrow> []
                     | Some p \<Rightarrow> if p = [] then [] else [''-i'', p])
                    @ (case additionalParams of None \<Rightarrow> [] | Some extra \<Rightarrow> extra);
               (h, s') = spawn dolphinPath ps s
           in (Inr h, s')))"

text \<open>The first lines of \<^verbatim>\<open>launchDolphin\<close>: the parameters that boot the ISO.\<close>

definition isoParams :: "env \<Rightarrow> string list" where
  "isoParams e =
     (case isoPath e of
        None \<Rightarrow> []
      | Some meleeISOPath \<Rightarrow> if meleeISOPath = [] then [] else [''-b'', ''-e'', meleeISOPath])"

text \<open>
  The last statement of the playback and spectate cases:
  \<^verbatim>\<open>if (instance.commFilePath) { await fs.writeFile(instance.commFilePath, JSON.stringify(replayComm)); }\<close>
\<close>

definition writeCommFile ::
  "env \<Rightarrow> DolphinInstance \<Rightarrow> ReplayCommunication option \<Rightarrow> state \<Rightarrow> (error + unit) \<times> state" where
  "writeCommFile e inst replayComm s =
     (case commFilePath inst of
        None \<Rightarrow> (Inr (), s)
      | Some p \<Rightarrow>
          if p = [] then (Inr (), s)
          else writeFile e p (map_option (JSON_stringify e) replayComm) s)"

text \<open>The case \<^verbatim>\<open>"playback"\<close>.\<close>

definition launchPlayback ::
  "env \<Rightarrow> ReplayCommunication option \<Rightarrow> state \<Rightarrow> (error + unit) \<times> state" where
  "launchPlayback e replayComm s =
     (case playback (dolphinInstances s) of
        None \<Rightarrow>
          (let (commFile, s1) = generateCommunicationFilePath e Playback s in
           case startDolphin e PLAYBACK (Some commFile) (Some (isoParams e)) s1 of
             (Inl err, s2) \<Rightarrow> (Inl err, s2)
           | (Inr h, s2) \<Rightarrow>
               (let inst = \<lparr>dolphinUseType = Playback, index = None,
                            dolphin = Some h, commFilePath = Some commFile\<rparr>;
                    s3 = s2\<lparr>dolphinInstances := (dolphinInstances s2)\<lparr>playback := Some inst\<rparr>\<rparr>;
                    s4 = on_close h (PlaybackClose commFile) s3
                in writeCommFile e inst replayComm s4))
      | Some inst \<Rightarrow> writeCommFile e inst replayComm s)"

text \<open>
  \<^verbatim>\<open>find(this.dolphinInstances.spectate, ["index", index])\<close> of lodash: the first
  instance whose index is the given one (\<^verbatim>\<open>undefined\<close> matches an instance whose index
  is \<^verbatim>\<open>undefined\<close>), nothing on \<open>null\<close>; and
  \<^verbatim>\<open>remove(array, (instance) => instance.index === index)\<close>, which takes every such
  instance out of the array.
\<close>

definition lodash_find :: "DolphinInstance list option \<Rightarrow> int option \<Rightarrow> DolphinInstance option" where
  "lodash_find coll i =
     (case coll of None \<Rightarrow> None | Some xs \<Rightarrow> find (\<lambda>inst. index inst = i) xs)"

definition lodash_remove :: "DolphinInstance list \<Rightarrow> int option \<Rightarrow> DolphinInstance list" where
  "lodash_remove xs i = filter (\<lambda>inst. index inst \<noteq> i) xs"

text \<open>The spectate instances of a state as a list: none for \<open>null\<close>.\<close>

definition spectateList :: "state \<Rightarrow> DolphinInstance list" where
  "spectateList s = (case spectate (dolphinInstances s) of None \<Rightarrow> [] | Some xs \<Rightarrow> xs)"

text \<open>The case \<^verbatim>\<open>"spectate"\<close>; \<open>createSpectate\<close> is the body of its \<^verbatim>\<open>if (!dolphinInstance?.dolphin)\<close>.\<close>

definition createSpectate ::
  "env \<Rightarrow> int option \<Rightarrow> ReplayCommunication option \<Rightarrow> state \<Rightarrow> (error + unit) \<times> state" where
  "createSpectate e i replayComm s =
     (let (commFile, s1) = generateCommunicationFilePath e Spectate s in
      case startDolphin e PLAYBACK (Some commFile) (Some (isoParams e)) s1 of
        (Inl err, s2) \<Rightarrow> (Inl err, s2)
      | (Inr h, s2) \<Rightarrow>
          (let inst = \<lparr>dolphinUseType = Spectate, index = i,
                       dolphin = Some h, commFilePath = Some commFile\<rparr>;
               insts = dolphinInstances s2;
               s3 = s2\<lparr>dolphinInstances := insts\<lparr>spectate :=
                          (case spectate insts of
                             None \<Rightarrow> Some [inst]
                           | Some xs \<Rightarrow> Some (xs @ [inst]))\<rparr>\<rparr>;
               s4 = on_close h (SpectateClose commFile i) s3
           in writeCommFile e inst replayComm s4))"

text \<open>
  \<open>withDolphin found\<close> is the instance when \<^verbatim>\<open>dolphinInstance?.dolphin\<close> is truthy: one was
  found and it holds a process.
\<close>

definition withDolphin :: "DolphinInstance option \<Rightarrow> DolphinInstance option" where
  "withDolphin found =
     (case found of
        None \<Rightarrow> None
      | Some inst \<Rightarrow> (case dolphin inst of None \<Rightarrow> None | Some h \<Rightarrow> Some inst))"

text \<open>\<^verbatim>\<open>index < 0\<close>: on \<^verbatim>\<open>undefined\<close> the comparison is false.\<close>

definition lessThanZero :: "int option \<Rightarrow> bool" where
  "lessThanZero i = (case i of None \<Rightarrow> False | Some n \<Rightarrow> n < 0)"

definition launchSpectate ::
  "env \<Rightarrow> int option \<Rightarrow> ReplayCommunication option \<Rightarrow> state \<Rightarrow> (error + unit) \<times> state" where
  "launchSpectate e i replayComm s =
     (if lessThanZero i then (Inl (Error ''Must have a valid index''), s)
      else
        (case withDolphin (lodash_find (spectate (dolphinInstances s)) i) of
           None \<Rightarrow> createSpectate e i replayComm s
         | Some inst \<Rightarrow> writeCommFile e inst replayComm s))"

text \<open>The case \<^verbatim>\<open>"netplay"\<close>.\<close>

definition launchNetplay :: "env \<Rightarrow> state \<Rightarrow> (error + unit) \<times> state" where
  "launchNetplay e s =
     (case netplay (dolphinInstances s) of
        None \<Rightarrow>
          (case startDolphin e NETPLAY None (Some (isoParams e)) s of
             (Inl err, s1) \<Rightarrow> (Inl err, s1)
           | (Inr h, s1) \<Rightarrow>
               (let inst = \<lparr>dolphinUseType = Netplay, index = None,
                            dolphin = Some h, commFilePath = None\<rparr>;
                    s2 = s1\<lparr>dolphinInstances := (dolphinInstances s1)\<lparr>netplay := Some inst\<rparr>\<rparr>
                in (Inr (), on_close h NetplayClose s2)))
      | Some inst \<Rightarrow> (Inr (), s))"

text \<open>
  The case \<^verbatim>\<open>"config"\<close>. \<^verbatim>\<open>this.dolphinInstances[configureType] = v\<close> is \<open>setSlot\<close>, for
  the two names \<open>configureType\<close> takes.
\<close>

definition setSlot :: "string \<Rightarrow> DolphinInstance option \<Rightarrow> DolphinInstances \<Rightarrow> DolphinInstances" where
  "setSlot configureType v insts =
     (if configureType = ''configNetplay'' then insts\<lparr>configNetplay := v\<rparr>
      else if configureType = ''configPlayback'' then insts\<lparr>configPlayback := v\<rparr>
      else insts)"

definition launchConfig :: "env \<Rightarrow> DolphinType option \<Rightarrow> state \<Rightarrow> (error + unit) \<times> state" where
  "launchConfig e dolphinType s =
     (case dolphinType of
        None \<Rightarrow> (Inl (Error ''Must define a dolphin type for configuration''), s)
      | Some dt \<Rightarrow>
          (let configureType = (case dt of NETPLAY \<Rightarrow> ''configNetplay'' | PLAYBACK \<Rightarrow> ''configPlayback'') in
           case startDolphin e dt None None s of
             (Inl err, s1) \<Rightarrow> (Inl err, s1)
           | (Inr h, s1) \<Rightarrow>
               (let inst = \<lparr>dolphinUseType = Config, index = None,
                            dolphin = Some h, commFilePath = None\<rparr>;
                    s2 = s1\<lparr>dolphinInstances := setSlot configureType (Some inst) (dolphinInstances s1)\<rparr>
                in (Inr (), on_close h (ConfigClose configureType) s2))))"

text \<open>
  \<^verbatim>\<open>launchDolphin(dolphinUseType, index, replayComm?, dolphinType?)\<close>, one call run from
  its first statement to its last with no other call in between. The index is
  declared \<^verbatim>\<open>index: number\<close>; a caller that gets past the type checker without one
  passes \<^verbatim>\<open>undefined\<close>, which is \<open>None\<close>, as for the two optional arguments. The result is
  what the promise settles with: \<open>Inr ()\<close> when it resolves, \<open>Inl err\<close> when it
  rejects; the state is returned in both cases.
\<close>

definition launchDolphin ::
  "env \<Rightarrow> DolphinUseType \<Rightarrow> int option \<Rightarrow> ReplayCommunication option \<Rightarrow> DolphinType option \<Rightarrow> state
     \<Rightarrow> (error + unit) \<times> state" where
  "launchDolphin e useType i replayComm dolphinType s =
     (case useType of
        Playback \<Rightarrow> launchPlayback e replayComm s
      | Spectate \<Rightarrow> launchSpectate e i replayComm s
      | Netplay \<Rightarrow> launchNetplay e s
      | Config \<Rightarrow> launchConfig e dolphinType s)"

subsection \<open>The close listeners\<close>

text \<open>
  A listener runs when its process emits \<open>close\<close>. The playback and spectate
  listeners are asynchronous functions that await \<^verbatim>\<open>fs.unlink\<close> first: when it
  rejects, the statements after it do not run.
\<close>

fun runCloseListener :: "close_listener \<Rightarrow> state \<Rightarrow> (error + unit) \<times> state" where
  "runCloseListener (PlaybackClose commFile) s =
     (case unlink commFile s of
        (Inl err, s1) \<Rightarrow> (Inl err, s1)
      | (Inr u, s1) \<Rightarrow>
          (Inr (), s1\<lparr>dolphinInstances := (dolphinInstances s1)\<lparr>playback := None\<rparr>\<rparr>))"
| "runCloseListener (SpectateClose commFile i) s =
     (case unlink commFile s of
        (Inl err, s1) \<Rightarrow> (Inl err, s1)
      | (Inr u, s1) \<Rightarrow>
          (case spectate (dolphinInstances s1) of
             None \<Rightarrow> (Inr (), s1)
           | Some xs \<Rightarrow>
               (Inr (), s1\<lparr>dolphinInstances :=
                             (dolphinInstances s1)\<lparr>spectate := Some (lodash_remove xs i)\<rparr>\<rparr>)))"
| "runCloseListener NetplayClose s =
     (Inr (), s\<lparr>dolphinInstances := (dolphinInstances s)\<lparr>netplay := None\<rparr>\<rparr>)"
| "runCloseListener (ConfigClose configureType) s =
     (Inr (), s\<lparr>dolphinInstances := setSlot configureType None (dolphinInstances s)\<rparr>)"

text \<open>
  The process with handle \<open>h\<close> exits: its listeners run in the order of their
  registration. A listener's rejection reaches no caller; the outcomes are
  returned beside the state.
\<close>

fun runCloseListeners :: "close_listener list \<Rightarrow> state \<Rightarrow> (error + unit) list \<times> state" where
  "runCloseListeners [] s = ([], s)"
| "runCloseListeners (l # ls) s =
     (case runCloseListener l s of
        (r, s1) \<Rightarrow> (case runCloseListeners ls s1 of (rs, s2) \<Rightarrow> (r # rs, s2)))"

definition emitClose :: "nat \<Rightarrow> state \<Rightarrow> (error + unit) list \<times> state" where
  "emitClose h s =
     (if h < length (processes s) then runCloseListeners (closeListeners (processes s ! h)) s
      else ([], s))"

text \<open>The manager as constructed: every slot \<open>null\<close>, nothing spawned.\<close>

definition initialInstances :: DolphinInstances where
  "initialInstances =
     \<lparr>playback = None, spectate = None, netplay = None, configNetplay = None, configPlayback = None\<rparr>"

definition initialState :: state where
  "initialState = \<lparr>dolphinInstances = initialInstances, files = Map.empty, processes = [], randomDraws = 0\<rparr>"

subsection \<open>The states of the manager\<close>


text \<open>
  Every spectate instance of the collection holds a process, and no two of them
  share an index.
\<close>

definition spectateWellFormed :: "state \<Rightarrow> bool" where
  "spectateWellFormed s =
     (list_all (\<lambda>inst. dolphin inst \<noteq> None) (spectateList s)
      \<and> distinct (map index (spectateList s)))"

subsection \<open>Calls one after the other\<close>

text \<open>
  A caller that awaits each \<^verbatim>\<open>launchDolphin("playback", ...)\<close> before the next: every
  call has its own arguments and may see different surroundings; whether a call
  resolves or rejects, the next one runs on the state it left.
\<close>

fun launchPlaybackCalls ::
  "(env \<times> int option \<times> ReplayCommunication option \<times> DolphinType option) list \<Rightarrow> state \<Rightarrow> state" where
  "launchPlaybackCalls [] s = s"
| "launchPlaybackCalls ((e, i, replayComm, dolphinType) # calls) s =
     launchPlaybackCalls calls (snd (launchDolphin e Playback i replayComm dolphinType s))"

subsection \<open>Calls that overlap\<close>

text \<open>
  \<^verbatim>\<open>launchDolphin\<close> is an asynchronous function: at every \<^verbatim>\<open>await\<close> it hands control
  back to the event loop, and other callbacks (another call of \<^verbatim>\<open>launchDolphin\<close>
  among them) run before it resumes. A call for \<^verbatim>\<open>"playback"\<close> is suspended at one
  of these points, each with the local variables that are live there:
  \<^item> \<open>AwaitSettings\<close>: \<^verbatim>\<open>await electronSettings.get("settings.isoPath")\<close>;
  \<^item> \<open>AwaitCommFilePath\<close>: \<^verbatim>\<open>await generateCommunicationFilePath(dolphinUseType)\<close>,
    after the check \<^verbatim>\<open>!this.dolphinInstances.playback\<close>;
  \<^item> \<open>AwaitExecutable\<close>: \<^verbatim>\<open>await findDolphinExecutable(dolphinType)\<close> inside \<^verbatim>\<open>startDolphin\<close>;
  \<^item> \<open>AwaitStartDolphin\<close>: \<^verbatim>\<open>await this.startDolphin(...)\<close>, the process spawned;
  \<^item> \<open>AwaitWriteFile\<close>: \<^verbatim>\<open>await fs.writeFile(...)\<close>, the write issued;
  \<^item> \<open>Settled\<close>: the promise of the call is resolved or rejected.
\<close>

datatype playback_call =
    AwaitSettings "ReplayCommunication option"
  | AwaitCommFilePath "ReplayCommunication option" string
  | AwaitExecutable "ReplayCommunication option" string
  | AwaitStartDolphin "ReplayCommunication option" string nat
  | AwaitWriteFile "error + unit"
  | Settled "error + unit"

definition issueWrite ::
  "env \<Rightarrow> DolphinInstance \<Rightarrow> ReplayCommunication option \<Rightarrow> state \<Rightarrow> playback_call \<times> state" where
  "issueWrite e inst replayComm s =
     (case commFilePath inst of
        None \<Rightarrow> (Settled (Inr ()), s)
      | Some p \<Rightarrow>
          if p = [] then (Settled (Inr ()), s)
          else (case writeFile e p (map_option (JSON_stringify e) replayComm) s of
                  (r, s1) \<Rightarrow> (AwaitWriteFile r, s1)))"

text \<open>\<open>resume\<close> runs a suspended call up to its next \<^verbatim>\<open>await\<close>, without interruption.\<close>

fun resume :: "env \<Rightarrow> playback_call \<Rightarrow> state \<Rightarrow> playback_call \<times> state" where
  "resume e (AwaitSettings replayComm) s =
     (case playback (dolphinInstances s) of
        None \<Rightarrow>
          (case generateCommunicationFilePath e Playback s of
             (commFile, s1) \<Rightarrow> (AwaitCommFilePath replayComm commFile, s1))
      | Some inst \<Rightarrow> issueWrite e inst replayComm s)"
| "resume e (AwaitCommFilePath replayComm commFile) s = (AwaitExecutable replayComm commFile, s)"
| "resume e (AwaitExecutable replayComm commFile) s =
     (case startDolphin e PLAYBACK (Some commFile) (Some (isoParams e)) s of
        (Inl err, s1) \<Rightarrow> (Settled (Inl err), s1)
      | (Inr h, s1) \<Rightarrow> (AwaitStartDolphin replayComm commFile h, s1))"
| "resume e (AwaitStartDolphin replayComm commFile h) s =
     (let inst = \<lparr>dolphinUseType = Playback, index = None,
                  dolphin = Some h, commFilePath = Some commFile\<rparr>;
          s1 = s\<lparr>dolphinInstances := (dolphinInstances s)\<lparr>playback := Some inst\<rparr>\<rparr>;
          s2 = on_close h (PlaybackClose commFile) s1
      in issueWrite e inst replayComm s2)"
| "resume e (AwaitWriteFile r) s = (Settled r, s)"
| "resume e (Settled r) s = (Settled r, s)"

text \<open>
  A schedule names, step by step, the call the event loop resumes next.
  \<open>resumeTimes n\<close> resumes one call \<open>n\<close> times in a row.
\<close>

fun runSchedule :: "env \<Rightarrow> nat list \<Rightarrow> playback_call list \<Rightarrow> state \<Rightarrow> playback_call list \<times> state" where
  "runSchedule e [] calls s = (calls, s)"
| "runSchedule e (k # ks) calls s =
     (if k < length calls
      then (case resume e (calls ! k) s of (c, s1) \<Rightarrow> runSchedule e ks (calls[k := c]) s1)
      else runSchedule e ks calls s)"

fun resumeTimes :: "nat \<Rightarrow> env \<Rightarrow> playback_call \<Rightarrow> state \<Rightarrow> playback_call \<times> state" where
  "resumeTimes 0 e c s = (c, s)"
| "resumeTimes (Suc n) e c s = (case resume e c s of (c1, s1) \<Rightarrow> resumeTimes n e c1 s1)"

subsection \<open>Sample surroundings\<close>

definition demoEnv :: env where
  "demoEnv =
     \<lparr>isoPath = Some ''/games/melee.iso'',
      tempDir = ''/tmp'',
      randomHex = (\<lambda>n. if n = 0 then ''0f1e2d3c4b5a69788796a5b4'' else ''c3d2e1f00112233445566778''),
      findDolphinExecutable =
        (\<lambda>dt. Inr (case dt of NETPLAY \<Rightarrow> ''/opt/netplay/dolphin'' | PLAYBACK \<Rightarrow> ''/opt/playback/dolphin'')),
      JSON_stringify = (\<lambda>c. case replay c of None \<Rightarrow> ''{}'' | Some r \<Rightarrow> ''{replay:'' @ r @ ''}''),
      writeFileCoerces = True,
      writeFileError = (\<lambda>p. None)\<rparr>"

definition demoComm :: ReplayCommunication where
  "demoComm =
     \<lparr>mode = ModeNormal, replay = Some ''game.slp'', startFrame = None, endFrame = None,
      commandId = None, outputOverlayFiles = None, isRealTimeMode = None, shouldResync = None,
      rollbackDisplayMethod = None, queue = None\<rparr>"

text \<open>
  The manager after one playback call and after one spectate call with index 3,
  each with the sample payload.
\<close>

definition playingState :: state where
  "playingState = snd (launchDolphin demoEnv Playback (Some 0) (Some demoComm) None initialState)"

definition spectatingState :: state where
  "spectatingState = snd (launchDolphin demoEnv Spectate (Some 3) (Some demoComm) None initialState)"


section \<open>The Dolphin installation (DolphinInstallation)\<close>

subsection \<open>Versions\<close>

text \<open>
  Modelled from the spec: \<open>DolphinVersionResponse\<close> is imported as a type from
  \<^verbatim>\<open>./fetchLatestVersion\<close>, which is not among the sources. The spec's release
  information is a version string and a mapping from platform identifier to
  URL; the installation reads them as \<open>version\<close> and \<open>downloadUrls\<close>.
\<close>

record DolphinVersionResponse =
  version :: string
  downloadUrls :: "string \<rightharpoonup> string"

text \<open>
  Modelled from the spec: \<^verbatim>\<open>lt\<close> is imported from the package \<^verbatim>\<open>semver\<close>, which is not
  among the sources; the spec calls it semantic-version ordering. A parsed
  version has three numbers and a list of pre-release identifiers. Versions are
  ordered by major, minor and patch number; a version with pre-release
  identifiers comes before the same version without; identifiers are compared
  one by one, a number before a word, numbers by value and words as strings,
  and a list that runs out first comes first.
\<close>

datatype prereleaseId = Numeric nat | Alphanumeric string

record SemVer =
  major :: nat
  minor :: nat
  patch :: nat
  prerelease :: "prereleaseId list"

fun stringLess :: "string \<Rightarrow> string \<Rightarrow> bool" where
  "stringLess [] [] = False"
| "stringLess [] (b # bs) = True"
| "stringLess (a # as) [] = False"
| "stringLess (a # as) (b # bs) =
     (if (of_char a :: nat) < of_char b then True
      else if (of_char b :: nat) < of_char a then False
      else stringLess as bs)"

definition compareNat :: "nat \<Rightarrow> nat \<Rightarrow> int" where
  "compareNat a b = (if a = b then 0 else if a < b then - 1 else 1)"

fun compareIdentifiers :: "prereleaseId \<Rightarrow> prereleaseId \<Rightarrow> int" where
  "compareIdentifiers (Numeric a) (Numeric b) = compareNat a b"
| "compareIdentifiers (Numeric a) (Alphanumeric b) = - 1"
| "compareIdentifiers (Alphanumeric a) (Numeric b) = 1"
| "compareIdentifiers (Alphanumeric a) (Alphanumeric b) =
     (if a = b then 0 else if stringLess a b then - 1 else 1)"

fun compareIdentifierLists :: "prereleaseId list \<Rightarrow> prereleaseId list \<Rightarrow> int" where
  "compareIdentifierLists [] [] = 0"
| "compareIdentifierLists (a # as) [] = 1"
| "compareIdentifierLists [] (b # bs) = - 1"
| "compareIdentifierLists (a # as) (b # bs) =
     (if a = b then compareIdentifierLists as bs else compareIdentifiers a b)"

definition compareMain :: "SemVer \<Rightarrow> SemVer \<Rightarrow> int" where
  "compareMain a b =
     (if compareNat (major a) (major b) \<noteq> 0 then compareNat (major a) (major b)
      else if compareNat (minor a) (minor b) \<noteq> 0 then compareNat (minor a) (minor b)
      else compareNat (patch a) (patch b))"

definition comparePre :: "SemVer \<Rightarrow> SemVer \<Rightarrow> int" where
  "comparePre a b =
     (if prerelease a \<noteq> [] \<and> prerelease b = [] then - 1
      else if prerelease a = [] \<and> prerelease b \<noteq> [] then 1
      else compareIdentifierLists (prerelease a) (prerelease b))"

definition compareSemVer :: "SemVer \<Rightarrow> SemVer \<Rightarrow> int" where
  "compareSemVer a b = (if compareMain a b \<noteq> 0 then compareMain a b else comparePre a b)"

subsection \<open>Surroundings and state of an installation\<close>

text \<open>
  What \<open>validate\<close> and \<open>downloadAndInstall\<close> obtain from outside: the launch type as
  it prints in a message, \<^verbatim>\<open>process.platform\<close>, the outcome of \<^verbatim>\<open>fetchLatestVersion\<close>, the
  outcome of \<^verbatim>\<open>this.findDolphinExecutable()\<close>, the standard output of the executable
  run with \<^verbatim>\<open>--version\<close> (\<open>None\<close> when \<^verbatim>\<open>spawnSync\<close> has no output to give), the parser
  of \<^verbatim>\<open>semver\<close> (\<open>None\<close> for a string that is no version), the downloader with the
  lines it logs and its outcome, and the platform's installer likewise.
\<close>

record install_env =
  launchTypeName :: string
  platformName :: string
  fetchLatestVersion :: "error + DolphinVersionResponse"
  findInstalledExecutable :: "error + string"
  versionStdout :: "string \<Rightarrow> string option"
  semverParse :: "string \<Rightarrow> SemVer option"
  downloadLatestDolphin :: "string \<Rightarrow> string list \<times> (error + string)"
  platformInstaller :: "string \<Rightarrow> string list \<times> (error + unit)"

text \<open>
  What they leave behind: the messages passed to \<open>log\<close>, the URLs handed to the
  downloader, the assets handed to an installer, and how often the installation
  was removed.
\<close>

record install_state =
  logged :: "string list"
  downloads :: "string list"
  installs :: "string list"
  uninstalls :: nat

definition logMessage :: "string \<Rightarrow> install_state \<Rightarrow> install_state" where
  "logMessage msg st = st\<lparr>logged := logged st @ [msg]\<rparr>"

subsection \<open>The methods\<close>

text \<open>\<^verbatim>\<open>lt(dolphinVersion, latestVersion)\<close> throws on a string that is no version.\<close>

definition lt :: "install_env \<Rightarrow> string \<Rightarrow> string \<Rightarrow> error + bool" where
  "lt env a b =
     (case semverParse env a of
        None \<Rightarrow> Inl (TypeError (''Invalid Version: '' @ a))
      | Some va \<Rightarrow>
          (case semverParse env b of
             None \<Rightarrow> Inl (TypeError (''Invalid Version: '' @ b))
           | Some vb \<Rightarrow> Inr (compareSemVer va vb < 0)))"

text \<open>\<^verbatim>\<open>_isOutOfDate(latestVersion)\<close>.\<close>

definition isOutOfDate :: "install_env \<Rightarrow> string \<Rightarrow> error + bool" where
  "isOutOfDate env latestVersion =
     (case findInstalledExecutable env of
        Inl err \<Rightarrow> Inl err
      | Inr dolphinPath \<Rightarrow>
          (case versionStdout env dolphinPath of
             None \<Rightarrow> Inl (TypeError ''Cannot read properties of null'')
           | Some dolphinVersion \<Rightarrow> lt env dolphinVersion latestVersion))"

text \<open>\<^verbatim>\<open>_installDolphin(assetPath, log, cleanInstall = false)\<close> with \<^verbatim>\<open>_uninstallDolphin\<close>.\<close>

definition installDolphin ::
  "install_env \<Rightarrow> string \<Rightarrow> bool option \<Rightarrow> install_state \<Rightarrow> (error + unit) \<times> install_state" where
  "installDolphin env assetPath cleanInstall st =
     (let st1 = (if cleanInstall = Some True then st\<lparr>uninstalls := Suc (uninstalls st)\<rparr> else st) in
      if platformName env = ''win32'' \<or> platformName env = ''darwin'' \<or> platformName env = ''linux''
      then (case platformInstaller env assetPath of
              (msgs, r) \<Rightarrow> (r, st1\<lparr>logged := logged st1 @ msgs, installs := installs st1 @ [assetPath]\<rparr>))
      else (Inl (Error (''Installing '' @ launchTypeName env
                        @ '' Dolphin is not supported on this platform: '' @ platformName env)), st1))"

text \<open>\<^verbatim>\<open>downloadAndInstall({ releaseInfo, log, cleanInstall })\<close>.\<close>

definition downloadAndInstall ::
  "install_env \<Rightarrow> DolphinVersionResponse option \<Rightarrow> bool option \<Rightarrow> install_state
     \<Rightarrow> (error + unit) \<times> install_state" where
  "downloadAndInstall env releaseInfo cleanInstall st =
     (case (case releaseInfo of Some info \<Rightarrow> Inr info | None \<Rightarrow> fetchLatestVersion env) of
        Inl err \<Rightarrow> (Inl err, st)
      | Inr dolphinDownloadInfo \<Rightarrow>
          (case downloadUrls dolphinDownloadInfo (platformName env) of
             None \<Rightarrow>
               (Inl (Error (''Could not find latest Dolphin download url for '' @ platformName env)), st)
           | Some downloadUrl \<Rightarrow>
               if downloadUrl = []
               then (Inl (Error (''Could not find latest Dolphin download url for '' @ platformName env)), st)
               else
                 (case downloadLatestDolphin env downloadUrl of
                    (msgs, Inl err) \<Rightarrow>
                      (Inl err, st\<lparr>logged := logged st @ msgs, downloads := downloads st @ [downloadUrl]\<rparr>)
                  | (msgs, Inr downloadedAsset) \<Rightarrow>
                      (let st1 = st\<lparr>logged := logged st @ msgs, downloads := downloads st @ [downloadUrl]\<rparr>;
                           st2 = logMessage (''Installing v'' @ version dolphinDownloadInfo @ '' ''
                                             @ launchTypeName env @ '' Dolphin...'') st1
                       in case installDolphin env downloadedAsset cleanInstall st2 of
                            (Inl err, st3) \<Rightarrow> (Inl err, st3)
                          | (Inr u, st3) \<Rightarrow>
                              (Inr (), logMessage (''Finished v'' @ version dolphinDownloadInfo @ '' ''
                                                   @ launchTypeName env @ '' Dolphin install'') st3)))))"

text \<open>
  \<^verbatim>\<open>validate(log)\<close>. \<open>tryBlock\<close> is the body of its \<^verbatim>\<open>try\<close>: \<open>Returned\<close> when it reaches
  \<^verbatim>\<open>return\<close>, \<open>Completed\<close> when it runs to its end, \<open>Thrown\<close> when an exception leaves it.
\<close>

datatype try_outcome = Returned install_state | Completed install_state | Thrown error install_state

definition tryBlock :: "install_env \<Rightarrow> DolphinVersionResponse \<Rightarrow> install_state \<Rightarrow> try_outcome" where
  "tryBlock env dolphinDownloadInfo st =
     (case findInstalledExecutable env of
        Inl err \<Rightarrow> Thrown err st
      | Inr dolphinPath \<Rightarrow>
          (let st1 = logMessage (''Found existing '' @ launchTypeName env @ '' Dolphin executable.'') st;
               st2 = logMessage (''Checking if we need to update '' @ launchTypeName env @ '' Dolphin'') st1;
               latestVersion = version dolphinDownloadInfo
           in case isOutOfDate env latestVersion of
                Inl err \<Rightarrow> Thrown err st2
              | Inr isOutdated \<Rightarrow>
                  if \<not> isOutdated then Returned (logMessage ''No update found...'' st2)
                  else Completed (logMessage (launchTypeName env
                         @ '' Dolphin installation is outdated. Downloading latest...'') st2)))"

definition validate :: "install_env \<Rightarrow> install_state \<Rightarrow> (error + unit) \<times> install_state" where
  "validate env st =
     (case fetchLatestVersion env of
        Inl err \<Rightarrow> (Inl err, st)
      | Inr dolphinDownloadInfo \<Rightarrow>
          (case tryBlock env dolphinDownloadInfo st of
             Returned st1 \<Rightarrow> (Inr (), st1)
           | Completed st1 \<Rightarrow> downloadAndInstall env (Some dolphinDownloadInfo) None st1
           | Thrown err st1 \<Rightarrow>
               downloadAndInstall env (Some dolphinDownloadInfo) None
                 (logMessage (''Could not find '' @ launchTypeName env
                              @ '' Dolphin installation. Downloading...'') st1)))"

subsection \<open>A sample installation\<close>

definition demoParse :: "string \<Rightarrow> SemVer option" where
  "demoParse v =
     (if v = ''2.3.1'' then Some \<lparr>major = 2, minor = 3, patch = 1, prerelease = []\<rparr>
      else if v = ''2.3.6'' then Some \<lparr>major = 2, minor = 3, patch = 6, prerelease = []\<rparr>
      else if v = ''3.0.0-beta.2'' then
        Some \<lparr>major = 3, minor = 0, patch = 0, prerelease = [Alphanumeric ''beta'', Numeric 2]\<rparr>
      else None)"

definition demoInstallEnv :: "string \<Rightarrow> install_env" where
  "demoInstallEnv installedOutput =
     \<lparr>launchTypeName = ''netplay'',
      platformName = ''linux'',
      fetchLatestVersion =
        Inr \<lparr>version = ''2.3.6'', downloadUrls = [''linux'' \<mapsto> ''https://example.org/dolphin.zip'']\<rparr>,
      findInstalledExecutable = Inr ''/opt/netplay/dolphin'',
      versionStdout = (\<lambda>p. Some installedOutput),
      semverParse = demoParse,
      downloadLatestDolphin = (\<lambda>url. ([''Downloading... 100%''], Inr ''/data/temp/dolphin.zip'')),
      platformInstaller = (\<lambda>asset. ([], Inr ()))\<rparr>"

definition emptyInstallState :: install_state where
  "emptyInstallState = \<lparr>logged = [], downloads = [], installs = [], uninstalls = 0\<rparr>"

section \<open>Properties of the instance manager\<close>

lemmas launch_defs =
  launchDolphin_def launchConfig_def launchPlayback_def launchNetplay_def launchSpectate_def
  createSpectate_def startDolphin_def spawn_def on_close_def setSlot_def writeCommFile_def
  writeFile_def storeFile_def generateCommunicationFilePath_def isoParams_def lodash_find_def
  withDolphin_def lessThanZero_def

lemmas demo_defs = demoEnv_def demoComm_def initialState_def initialInstances_def

subsection \<open>What a write of the comm file and a registration leave alone\<close>

lemma writeCommFile_keeps:
  "processes (snd (writeCommFile e inst rc s)) = processes s \<and>
   dolphinInstances (snd (writeCommFile e inst rc s)) = dolphinInstances s \<and>
   randomDraws (snd (writeCommFile e inst rc s)) = randomDraws s"
  by (simp add: writeCommFile_def writeFile_def storeFile_def split: option.splits)

lemma length_on_close: "length (processes (on_close h l s)) = length (processes s)"
  by (simp add: on_close_def)

lemma dolphinInstances_on_close: "dolphinInstances (on_close h l s) = dolphinInstances s"
  by (simp add: on_close_def)

lemma files_on_close: "files (on_close h l s) = files s"
  by (simp add: on_close_def)

subsection \<open>The singleton slots\<close>

text \<open>
  The playback and the netplay case test their slot first: on an occupied slot
  no process is spawned and the registry stays as it is.
\<close>

lemma launchPlayback_occupied:
  assumes "playback (dolphinInstances s) = Some inst"
  shows "processes (snd (launchPlayback e rc s)) = processes s"
    and "dolphinInstances (snd (launchPlayback e rc s)) = dolphinInstances s"
  using assms by (simp_all add: launchPlayback_def writeCommFile_keeps)

lemma launchNetplay_occupied:
  assumes "netplay (dolphinInstances s) = Some inst"
  shows "launchNetplay e s = (Inr (), s)"
  using assms by (simp add: launchNetplay_def)

text \<open>
  On an empty playback slot a call either spawns nothing and leaves the registry
  alone (no executable was found), or spawns one process and fills the slot.
\<close>

lemma launchPlayback_empty:
  assumes "playback (dolphinInstances s) = None"
  shows "(processes (snd (launchPlayback e rc s)) = processes s
          \<and> dolphinInstances (snd (launchPlayback e rc s)) = dolphinInstances s)
       \<or> (length (processes (snd (launchPlayback e rc s))) = Suc (length (processes s))
          \<and> playback (dolphinInstances (snd (launchPlayback e rc s))) \<noteq> None)"
proof (cases "findDolphinExecutable e PLAYBACK")
  case (Inl err)
  then show ?thesis using assms
    by (simp add: launchPlayback_def startDolphin_def generateCommunicationFilePath_def)
next
  case (Inr p)
  then show ?thesis using assms
    by (simp add: launchPlayback_def startDolphin_def generateCommunicationFilePath_def spawn_def
        writeCommFile_keeps length_on_close dolphinInstances_on_close Let_def)
qed

text \<open>
  The config case has no such test: whenever the executable is found it spawns
  a process, whatever the slot holds.
\<close>

lemma launchConfig_spawns:
  assumes "findDolphinExecutable e dt = Inr p"
  shows "length (processes (snd (launchConfig e (Some dt) s))) = Suc (length (processes s))"
  using assms by (simp add: launchConfig_def startDolphin_def spawn_def length_on_close Let_def)

text \<open>
  Claim C1, on the input where the code departs from it: on the manager as
  constructed, \<^verbatim>\<open>launchDolphin("config", 0, undefined, DolphinType.PLAYBACK)\<close> is called
  twice and no process exits in between. Both calls resolve; the first puts the
  process with handle 0 into the slot \<open>configPlayback\<close>; the second spawns a
  second process and puts its handle, 1, into the slot in place of the first.
\<close>

theorem C1_config_relaunch_spawns_again:
  "(case launchDolphin demoEnv Config (Some 0) None (Some PLAYBACK) initialState of
      (r1, s1) \<Rightarrow>
        (case launchDolphin demoEnv Config (Some 0) None (Some PLAYBACK) s1 of
           (r2, s2) \<Rightarrow>
             r1 = Inr () \<and> r2 = Inr ()
             \<and> map_option dolphin (configPlayback (dolphinInstances s1)) = Some (Some 0)
             \<and> map_option dolphin (configPlayback (dolphinInstances s2)) = Some (Some 1)
             \<and> length (processes s1) = 1 \<and> length (processes s2) = 2))"
  by (simp add: launch_defs demo_defs)

subsection \<open>Playback calls one after the other\<close>

lemma launchPlaybackCalls_append:
  "launchPlaybackCalls (pre @ post) s = launchPlaybackCalls post (launchPlaybackCalls pre s)"
  by (induction pre arbitrary: s) auto

lemma launchPlaybackCalls_occupied:
  "playback (dolphinInstances s) \<noteq> None \<Longrightarrow>
     processes (launchPlaybackCalls calls s) = processes s
     \<and> dolphinInstances (launchPlaybackCalls calls s) = dolphinInstances s"
proof (induction calls arbitrary: s)
  case Nil
  then show ?case by simp
next
  case (Cons c calls)
  obtain e i rc dt where c: "c = (e, i, rc, dt)" by (cases c) auto
  from Cons.prems obtain inst where inst: "playback (dolphinInstances s) = Some inst" by auto
  let ?s1 = "snd (launchDolphin e Playback i rc dt s)"
  have keep: "processes ?s1 = processes s" "dolphinInstances ?s1 = dolphinInstances s"
    using launchPlayback_occupied[OF inst] by (simp_all add: launchDolphin_def)
  then have "playback (dolphinInstances ?s1) \<noteq> None" using inst by simp
  from Cons.IH[OF this] keep show ?case by (simp add: c)
qed

lemma launchPlaybackCalls_spawns:
  "processes (launchPlaybackCalls calls s) = processes s
   \<or> (length (processes (launchPlaybackCalls calls s)) = Suc (length (processes s))
      \<and> playback (dolphinInstances (launchPlaybackCalls calls s)) \<noteq> None)"
proof (induction calls arbitrary: s)
  case Nil
  then show ?case by simp
next
  case (Cons c calls)
  obtain e i rc dt where c: "c = (e, i, rc, dt)" by (cases c) auto
  let ?s1 = "snd (launchDolphin e Playback i rc dt s)"
  have s1: "?s1 = snd (launchPlayback e rc s)" by (simp add: launchDolphin_def)
  show ?case
  proof (cases "playback (dolphinInstances s)")
    case (Some inst)
    then have "playback (dolphinInstances s) \<noteq> None" by simp
    from launchPlaybackCalls_occupied[OF this] show ?thesis by simp
  next
    case None
    from launchPlayback_empty[OF None, of e rc]
    show ?thesis
    proof
      assume same: "processes (snd (launchPlayback e rc s)) = processes s
          \<and> dolphinInstances (snd (launchPlayback e rc s)) = dolphinInstances s"
      from Cons.IH[of ?s1] same show ?thesis by (simp add: c s1)
    next
      assume grown: "length (processes (snd (launchPlayback e rc s))) = Suc (length (processes s))
          \<and> playback (dolphinInstances (snd (launchPlayback e rc s))) \<noteq> None"
      then have "playback (dolphinInstances ?s1) \<noteq> None" by (simp add: s1)
      from launchPlaybackCalls_occupied[OF this, of calls] grown
      show ?thesis by (simp add: c s1)
    qed
  qed
qed

text \<open>
  Playback calls made one after the other, each awaited before the next, on any
  state and with any arguments and surroundings per call, no close event in
  between: at most one process is spawned over the whole sequence. If the slot
  is occupied at the start, nothing is spawned and the registry is unchanged.
  And once a call of the sequence has spawned a process, the slot is occupied
  and no later call spawns.
\<close>

lemma awaited_playback_calls_spawn_at_most_once:
  "length (processes (launchPlaybackCalls calls s)) \<le> Suc (length (processes s))
   \<and> (playback (dolphinInstances s) \<noteq> None \<longrightarrow>
        processes (launchPlaybackCalls calls s) = processes s
        \<and> dolphinInstances (launchPlaybackCalls calls s) = dolphinInstances s)
   \<and> (calls = pre @ post \<and> processes (launchPlaybackCalls pre s) \<noteq> processes s \<longrightarrow>
        playback (dolphinInstances (launchPlaybackCalls pre s)) \<noteq> None
        \<and> processes (launchPlaybackCalls calls s) = processes (launchPlaybackCalls pre s))"
proof (intro conjI impI)
  show "length (processes (launchPlaybackCalls calls s)) \<le> Suc (length (processes s))"
    using launchPlaybackCalls_spawns[of calls s] by auto
next
  assume "playback (dolphinInstances s) \<noteq> None"
  from launchPlaybackCalls_occupied[OF this]
  show "processes (launchPlaybackCalls calls s) = processes s"
    and "dolphinInstances (launchPlaybackCalls calls s) = dolphinInstances s" by simp_all
next
  assume a: "calls = pre @ post \<and> processes (launchPlaybackCalls pre s) \<noteq> processes s"
  with launchPlaybackCalls_spawns[of pre s]
  show occ: "playback (dolphinInstances (launchPlaybackCalls pre s)) \<noteq> None" by auto
  from launchPlaybackCalls_occupied[OF occ, of post] a
  show "processes (launchPlaybackCalls calls s) = processes (launchPlaybackCalls pre s)"
    by (simp add: launchPlaybackCalls_append)
qed

subsection \<open>Playback calls that overlap\<close>

text \<open>
  A call that is resumed five times in a row, with nothing in between, is the
  call \<open>launchPlayback\<close> describes.
\<close>

lemma resume_sequential:
  "resumeTimes 5 e (AwaitSettings rc) s
     = (Settled (fst (launchPlayback e rc s)), snd (launchPlayback e rc s))"
  by (simp add: eval_nat_numeral launchPlayback_def issueWrite_def writeCommFile_def Let_def
      split: option.splits prod.splits sum.splits)

text \<open>
  Two calls, the second made once the first has settled: the second finds the
  slot occupied, and one process is spawned.
\<close>

lemma awaited_calls_spawn_once:
  "(case runSchedule demoEnv [0, 0, 0, 0, 0, 1, 1, 1, 1, 1]
           [AwaitSettings (Some demoComm), AwaitSettings (Some demoComm)] initialState of
      (calls, s) \<Rightarrow>
        calls = [Settled (Inr ()), Settled (Inr ())]
        \<and> length (processes s) = 1
        \<and> map_option dolphin (playback (dolphinInstances s)) = Some (Some 0))"
  by (simp add: launch_defs issueWrite_def demo_defs)

text \<open>
  Two calls resumed in turn, on any state with an empty playback slot and with
  the executable found, whatever their payloads: two processes are spawned.
\<close>

lemma overlapping_calls_spawn_twice:
  assumes "playback (dolphinInstances s) = None"
    and "findDolphinExecutable e PLAYBACK = Inr p"
  shows "length (processes (snd (runSchedule e [0, 1, 0, 1, 0, 1, 0, 1, 0, 1]
                                  [AwaitSettings a, AwaitSettings b] s)))
           = length (processes s) + 2"
  using assms
  by (simp add: generateCommunicationFilePath_def startDolphin_def spawn_def on_close_def
      issueWrite_def writeFile_def storeFile_def Let_def split: option.splits)

text \<open>
  Claim C2, on the input where the code departs from it: on the manager as
  constructed, two playback calls are made, the second before the first has
  settled, and no process exits. When each call has been resumed once, both have
  read the slot as empty and each holds a comm file path of its own: the second
  call has not observed an occupied slot. When both have settled, two playback
  processes have been spawned, one per comm file, where the claim allows one.
\<close>

theorem C2_two_playback_processes_without_exit:
  "(case runSchedule demoEnv [0, 1] [AwaitSettings (Some demoComm), AwaitSettings None] initialState of
      (calls, s) \<Rightarrow>
        calls = [AwaitCommFilePath (Some demoComm) ''/tmp/slippi-playback-0f1e2d3c4b5a69788796a5b4.txt'',
                 AwaitCommFilePath None ''/tmp/slippi-playback-c3d2e1f00112233445566778.txt'']
        \<and> playback (dolphinInstances s) = None
        \<and> processes s = [])
   \<and> (case runSchedule demoEnv [0, 1, 0, 1, 0, 1, 0, 1, 0, 1]
            [AwaitSettings (Some demoComm), AwaitSettings None] initialState of
      (calls, s) \<Rightarrow>
        calls = [Settled (Inr ()), Settled (Inr ())]
        \<and> map exe (processes s) = [''/opt/playback/dolphin'', ''/opt/playback/dolphin'']
        \<and> map params (processes s)
            = [[''-i'', ''/tmp/slippi-playback-0f1e2d3c4b5a69788796a5b4.txt'',
                ''-b'', ''-e'', ''/games/melee.iso''],
               [''-i'', ''/tmp/slippi-playback-c3d2e1f00112233445566778.txt'',
                ''-b'', ''-e'', ''/games/melee.iso'']])"
  by (simp add: launch_defs issueWrite_def demo_defs)

text \<open>
  Claim C3, on the input where the code departs from it: on the manager as
  constructed, \<^verbatim>\<open>launchDolphin("playback", ...)\<close> is called twice without awaiting the
  first call. The check \<^verbatim>\<open>!this.dolphinInstances.playback\<close> and the assignment of the
  slot are separated by the awaits of \<^verbatim>\<open>generateCommunicationFilePath\<close> and of
  \<^verbatim>\<open>startDolphin\<close>, so each call reads the slot as empty before the other has
  filled it. This happens when the event loop resumes the two calls in turn, and
  also when each call runs on until it waits for \<^verbatim>\<open>findDolphinExecutable\<close>. In both
  schedules both calls resolve, two processes are spawned, and the slot ends up
  with the second handle while the first process runs on outside the registry.
\<close>

theorem C3_overlapping_calls_both_spawn:
  "(case runSchedule demoEnv [0, 1, 0, 1, 0, 1, 0, 1, 0, 1]
           [AwaitSettings (Some demoComm), AwaitSettings (Some demoComm)] initialState of
      (calls, s) \<Rightarrow>
        calls = [Settled (Inr ()), Settled (Inr ())]
        \<and> length (processes s) = 2
        \<and> map_option dolphin (playback (dolphinInstances s)) = Some (Some 1))
   \<and> (case runSchedule demoEnv [0, 0, 1, 1, 0, 0, 1, 1, 0, 1]
           [AwaitSettings (Some demoComm), AwaitSettings (Some demoComm)] initialState of
      (calls, s) \<Rightarrow>
        calls = [Settled (Inr ()), Settled (Inr ())]
        \<and> length (processes s) = 2
        \<and> map_option dolphin (playback (dolphinInstances s)) = Some (Some 1))"
  by (simp add: launch_defs issueWrite_def demo_defs)

subsection \<open>Writing the comm file\<close>

text \<open>
  Claim C4, on the input where the code departs from it: on the manager as
  constructed, \<^verbatim>\<open>launchDolphin("playback", 0)\<close> is called without a payload. The last
  statement of the case tests the comm file path of the instance, not the
  payload, and hands \<^verbatim>\<open>JSON.stringify(undefined)\<close> to \<^verbatim>\<open>fs.writeFile\<close>. Where that
  coerces its data, the call resolves and the new comm file holds the text
  \<^verbatim>\<open>undefined\<close>; where it does not, the call rejects.
\<close>

theorem C4_write_without_payload:
  "files initialState ''/tmp/slippi-playback-0f1e2d3c4b5a69788796a5b4.txt'' = None
   \<and> fst (launchDolphin demoEnv Playback (Some 0) None None initialState) = Inr ()
   \<and> files (snd (launchDolphin demoEnv Playback (Some 0) None None initialState))
        ''/tmp/slippi-playback-0f1e2d3c4b5a69788796a5b4.txt'' = Some ''undefined''
   \<and> fst (launchDolphin (demoEnv\<lparr>writeFileCoerces := False\<rparr>) Playback (Some 0) None None initialState)
       = Inl ERR_INVALID_ARG_TYPE"
  by (simp add: launch_defs demo_defs)

text \<open>
  With a payload, a playback call on an occupied slot hands the JSON
  serialization of the payload to \<^verbatim>\<open>fs.writeFile\<close> for the comm file of the instance,
  and settles as the write does: the file holds the serialization when the
  write meets no error, and the call rejects with the error when it does.
\<close>

lemma payload_is_written:
  assumes "playback (dolphinInstances s) = Some inst"
    and "commFilePath inst = Some p" and "p \<noteq> []"
  shows "launchDolphin e Playback i (Some c) dt s = storeFile e p (JSON_stringify e c) s"
    and "writeFileError e p = None \<Longrightarrow>
           launchDolphin e Playback i (Some c) dt s
             = (Inr (), s\<lparr>files := (files s)(p \<mapsto> JSON_stringify e c)\<rparr>)"
    and "writeFileError e p = Some err \<Longrightarrow>
           launchDolphin e Playback i (Some c) dt s = (Inl err, s)"
  using assms
  by (simp_all add: launchDolphin_def launchPlayback_def writeCommFile_def writeFile_def storeFile_def)

text \<open>
  On an empty slot the write comes last: when it meets an error, the call
  rejects with it, after the process has been spawned and the slot filled.
\<close>

lemma launchPlayback_write_rejected:
  assumes "playback (dolphinInstances s) = None"
    and "findDolphinExecutable e PLAYBACK = Inr x"
    and "writeFileError e (fst (generateCommunicationFilePath e Playback s)) = Some err"
  shows "fst (launchDolphin e Playback i (Some c) dt s) = Inl err"
    and "playback (dolphinInstances (snd (launchDolphin e Playback i (Some c) dt s))) \<noteq> None"
    and "length (processes (snd (launchDolphin e Playback i (Some c) dt s))) = Suc (length (processes s))"
  using assms by (simp_all add: launch_defs Let_def)

subsection \<open>When a process exits\<close>

text \<open>
  With the comm file on disk, the playback listener removes it and empties the
  slot, and the spectate listener removes it and takes the instances with its
  index out of the collection.
\<close>

lemma runCloseListener_file_present:
  assumes "files s p = Some c"
  shows "runCloseListener (PlaybackClose p) s
           = (Inr (), s\<lparr>files := (files s)(p := None),
                        dolphinInstances := (dolphinInstances s)\<lparr>playback := None\<rparr>\<rparr>)"
    and "fst (runCloseListener (SpectateClose p i) s) = Inr ()"
    and "files (snd (runCloseListener (SpectateClose p i) s)) = (files s)(p := None)"
    and "spectate (dolphinInstances (snd (runCloseListener (SpectateClose p i) s)))
           = map_option (\<lambda>xs. lodash_remove xs i) (spectate (dolphinInstances s))"
  using assms by (simp_all add: unlink_def split: option.splits)

text \<open>
  Without the comm file on disk, both listeners stop at the rejection of
  \<^verbatim>\<open>fs.unlink\<close> and leave the state as it was.
\<close>

lemma runCloseListener_file_absent:
  assumes "files s p = None"
  shows "runCloseListener (PlaybackClose p) s = (Inl (ENOENT p), s)"
    and "runCloseListener (SpectateClose p i) s = (Inl (ENOENT p), s)"
  using assms by (simp_all add: unlink_def)

text \<open>
  Claim C5, on the input where the code departs from it: a playback instance is
  live (the manager after one playback call) and its comm file has been removed
  from the temporary directory by someone else before the process exits. The
  listener's \<^verbatim>\<open>fs.unlink\<close> rejects, the assignment after it does not run, and the slot
  still holds the instance of the process that has exited. The same holds for a
  spectate instance: its entry stays in the collection. The manager gets there
  on its own as well: where \<^verbatim>\<open>fs.writeFile\<close> does not coerce its data, a playback call
  without a payload registers the instance and rejects before the comm file
  exists; when that process exits the slot stays occupied, and a later playback
  call spawns nothing.
\<close>

theorem C5_slot_kept_when_comm_file_is_gone:
  "playback (dolphinInstances playingState) \<noteq> None
   \<and> closeListeners (processes playingState ! 0)
       = [PlaybackClose ''/tmp/slippi-playback-0f1e2d3c4b5a69788796a5b4.txt'']
   \<and> emitClose 0 (playingState\<lparr>files := Map.empty\<rparr>)
       = ([Inl (ENOENT ''/tmp/slippi-playback-0f1e2d3c4b5a69788796a5b4.txt'')],
          playingState\<lparr>files := Map.empty\<rparr>)
   \<and> playback (dolphinInstances (snd (emitClose 0 (playingState\<lparr>files := Map.empty\<rparr>)))) \<noteq> None
   \<and> emitClose 0 (spectatingState\<lparr>files := Map.empty\<rparr>)
       = ([Inl (ENOENT ''/tmp/slippi-spectate-0f1e2d3c4b5a69788796a5b4.txt'')],
          spectatingState\<lparr>files := Map.empty\<rparr>)
   \<and> map_option (map index)
        (spectate (dolphinInstances (snd (emitClose 0 (spectatingState\<lparr>files := Map.empty\<rparr>)))))
       = Some [Some 3]
   \<and> (case launchDolphin (demoEnv\<lparr>writeFileCoerces := False\<rparr>) Playback (Some 0) None None initialState of
         (r1, s1) \<Rightarrow>
           (case emitClose 0 s1 of
              (rs, s2) \<Rightarrow>
                (case launchDolphin (demoEnv\<lparr>writeFileCoerces := False\<rparr>) Playback (Some 0)
                        (Some demoComm) None s2 of
                   (r3, s3) \<Rightarrow>
                     r1 = Inl ERR_INVALID_ARG_TYPE \<and> files s1 = Map.empty
                     \<and> rs = [Inl (ENOENT ''/tmp/slippi-playback-0f1e2d3c4b5a69788796a5b4.txt'')]
                     \<and> map_option dolphin (playback (dolphinInstances s2)) = Some (Some 0)
                     \<and> r3 = Inr () \<and> length (processes s3) = 1)))"
  by (simp add: emitClose_def unlink_def playingState_def spectatingState_def launch_defs demo_defs)

text \<open>
  Claim C6, on the input where the code departs from it: the comm file of the
  live playback instance is already gone when the process exits. The removal
  the listener runs is \<^verbatim>\<open>fs.unlink\<close> as it is: on the absent file it rejects with
  \<open>ENOENT\<close>, and with it the listener.
\<close>

theorem C6_destroy_rejects_absent_file:
  "fst (unlink ''/tmp/slippi-playback-0f1e2d3c4b5a69788796a5b4.txt'' (playingState\<lparr>files := Map.empty\<rparr>))
     = Inl (ENOENT ''/tmp/slippi-playback-0f1e2d3c4b5a69788796a5b4.txt'')
   \<and> fst (runCloseListener (PlaybackClose ''/tmp/slippi-playback-0f1e2d3c4b5a69788796a5b4.txt'')
            (playingState\<lparr>files := Map.empty\<rparr>))
     = Inl (ENOENT ''/tmp/slippi-playback-0f1e2d3c4b5a69788796a5b4.txt'')"
  by (simp add: unlink_def)

subsection \<open>Arguments that are refused\<close>

text \<open>
  Claim C7 as it stands fails: the message of the error is not the one the
  claim quotes.
\<close>

theorem C7_message_differs:
  "fst (launchDolphin demoEnv Config (Some 0) None None initialState)
     \<noteq> Inl (Error ''must define a launch variant for configuration'')"
  by (simp add: launchDolphin_def launchConfig_def)

text \<open>
  Claim C7, amended: every config call without a Dolphin type rejects with the
  error whose message is \<^verbatim>\<open>Must define a dolphin type for configuration\<close>, and leaves
  the registry, and the rest of the state, unchanged.
\<close>

theorem C7_config_needs_dolphin_type:
  "launchDolphin e Config i replayComm None s
     = (Inl (Error ''Must define a dolphin type for configuration''), s)"
  by (simp add: launchDolphin_def launchConfig_def)

subsection \<open>Spectating\<close>



text \<open>
  The collection of spectate instances stays well formed. Calls for the other
  use types, writes of a comm file and changes of the files leave the collection
  alone; a spectate call appends an instance only when none with the index is
  found, and the instance it appends holds a process; a close listener only
  takes instances out. So in every state of the manager each spectate instance
  holds a process and no two share an index, and the lookup of an index finds
  the instance of the collection that has it.
\<close>

lemma spectateList_files [simp]: "spectateList (s\<lparr>files := fs\<rparr>) = spectateList s"
  by (simp add: spectateList_def)

lemma spectateList_cong: "dolphinInstances s' = dolphinInstances s \<Longrightarrow> spectateList s' = spectateList s"
  by (simp add: spectateList_def)

lemma spectateWellFormed_cong:
  "spectateList s' = spectateList s \<Longrightarrow> spectateWellFormed s' = spectateWellFormed s"
  by (simp add: spectateWellFormed_def)




lemma find_absent_iff:
  "lodash_find (spectate (dolphinInstances s)) i = None
     \<longleftrightarrow> (\<forall>inst \<in> set (spectateList s). index inst \<noteq> i)"
  by (auto simp: lodash_find_def spectateList_def find_None_iff split: option.splits)












subsection \<open>Netplay and config calls with a payload\<close>

text \<open>
  Claim C10. A netplay or config call that is given a payload does what the same
  call does without one, and what it does under any other serializer: the
  payload is not read and not serialized. No file is created or changed. The
  payload causes no error: with the executable found (and a Dolphin type given
  to config) the call resolves. The instance put into the slot stores no comm
  file path, and its process is started without a comm file argument.
\<close>

theorem C10_payload_ignored:
  "launchDolphin e Netplay i (Some c) dt s = launchDolphin e Netplay i None dt s
   \<and> launchDolphin e Config i (Some c) dt s = launchDolphin e Config i None dt s
   \<and> launchDolphin (e\<lparr>JSON_stringify := f\<rparr>) Netplay i (Some c) dt s = launchDolphin e Netplay i (Some c) dt s
   \<and> launchDolphin (e\<lparr>JSON_stringify := f\<rparr>) Config i (Some c) dt s = launchDolphin e Config i (Some c) dt s
   \<and> files (snd (launchDolphin e Netplay i (Some c) dt s)) = files s
   \<and> files (snd (launchDolphin e Config i (Some c) dt s)) = files s
   \<and> (findDolphinExecutable e NETPLAY = Inr x \<longrightarrow>
        fst (launchDolphin e Netplay i (Some c) dt s) = Inr ())
   \<and> (findDolphinExecutable e v = Inr x \<longrightarrow>
        fst (launchDolphin e Config i (Some c) (Some v) s) = Inr ())
   \<and> (netplay (dolphinInstances s) = None \<and> findDolphinExecutable e NETPLAY = Inr x \<longrightarrow>
        netplay (dolphinInstances (snd (launchDolphin e Netplay i (Some c) dt s)))
          = Some \<lparr>dolphinUseType = Netplay, index = None, dolphin = Some (length (processes s)),
                  commFilePath = None\<rparr>
        \<and> params (last (processes (snd (launchDolphin e Netplay i (Some c) dt s)))) = isoParams e)
   \<and> (findDolphinExecutable e v = Inr x \<longrightarrow>
        (case v of NETPLAY \<Rightarrow> configNetplay | PLAYBACK \<Rightarrow> configPlayback)
           (dolphinInstances (snd (launchDolphin e Config i (Some c) (Some v) s)))
          = Some \<lparr>dolphinUseType = Config, index = None, dolphin = Some (length (processes s)),
                  commFilePath = None\<rparr>
        \<and> params (last (processes (snd (launchDolphin e Config i (Some c) (Some v) s)))) = [])"
proof (intro conjI impI)
  show "launchDolphin e Netplay i (Some c) dt s = launchDolphin e Netplay i None dt s"
    by (simp add: launchDolphin_def)
  show "launchDolphin e Config i (Some c) dt s = launchDolphin e Config i None dt s"
    by (simp add: launchDolphin_def)
  show "launchDolphin (e\<lparr>JSON_stringify := f\<rparr>) Netplay i (Some c) dt s = launchDolphin e Netplay i (Some c) dt s"
    by (simp add: launchDolphin_def launchNetplay_def startDolphin_def isoParams_def split: option.splits)
  show "launchDolphin (e\<lparr>JSON_stringify := f\<rparr>) Config i (Some c) dt s = launchDolphin e Config i (Some c) dt s"
    by (simp add: launchDolphin_def launchConfig_def startDolphin_def split: option.splits)
  show "files (snd (launchDolphin e Netplay i (Some c) dt s)) = files s"
    by (simp add: launchDolphin_def launchNetplay_def startDolphin_def spawn_def on_close_def Let_def
        split: option.splits sum.splits)
  show "files (snd (launchDolphin e Config i (Some c) dt s)) = files s"
    by (simp add: launchDolphin_def launchConfig_def startDolphin_def spawn_def on_close_def Let_def
        split: option.splits sum.splits)
next
  assume "findDolphinExecutable e NETPLAY = Inr x"
  then show "fst (launchDolphin e Netplay i (Some c) dt s) = Inr ()"
    by (simp add: launchDolphin_def launchNetplay_def startDolphin_def spawn_def Let_def
        split: option.splits)
next
  assume "findDolphinExecutable e v = Inr x"
  then show "fst (launchDolphin e Config i (Some c) (Some v) s) = Inr ()"
    by (simp add: launchDolphin_def launchConfig_def startDolphin_def spawn_def Let_def)
next
  assume a: "netplay (dolphinInstances s) = None \<and> findDolphinExecutable e NETPLAY = Inr x"
  then show "netplay (dolphinInstances (snd (launchDolphin e Netplay i (Some c) dt s)))
          = Some \<lparr>dolphinUseType = Netplay, index = None, dolphin = Some (length (processes s)),
                  commFilePath = None\<rparr>"
    by (simp add: launchDolphin_def launchNetplay_def startDolphin_def spawn_def on_close_def Let_def)
  from a show "params (last (processes (snd (launchDolphin e Netplay i (Some c) dt s)))) = isoParams e"
    by (simp add: launchDolphin_def launchNetplay_def startDolphin_def spawn_def on_close_def Let_def
        enumerate_append_eq)
next
  assume a: "findDolphinExecutable e v = Inr x"
  then show "(case v of NETPLAY \<Rightarrow> configNetplay | PLAYBACK \<Rightarrow> configPlayback)
           (dolphinInstances (snd (launchDolphin e Config i (Some c) (Some v) s)))
          = Some \<lparr>dolphinUseType = Config, index = None, dolphin = Some (length (processes s)),
                  commFilePath = None\<rparr>"
    by (cases v) (simp_all add: launchDolphin_def launchConfig_def startDolphin_def spawn_def on_close_def
        setSlot_def Let_def)
  from a show "params (last (processes (snd (launchDolphin e Config i (Some c) (Some v) s)))) = []"
    by (simp add: launchDolphin_def launchConfig_def startDolphin_def spawn_def on_close_def Let_def
        enumerate_append_eq)
qed

text \<open>A netplay call and a config call with the sample payload on the manager as constructed.\<close>

theorem C10_payload_ignored_witness:
  "fst (launchDolphin demoEnv Netplay (Some 0) (Some demoComm) None initialState) = Inr ()
   \<and> netplay (dolphinInstances (snd (launchDolphin demoEnv Netplay (Some 0) (Some demoComm) None initialState)))
       = Some \<lparr>dolphinUseType = Netplay, index = None, dolphin = Some 0, commFilePath = None\<rparr>
   \<and> params (last (processes (snd (launchDolphin demoEnv Netplay (Some 0) (Some demoComm) None initialState))))
       = [''-b'', ''-e'', ''/games/melee.iso'']
   \<and> files (snd (launchDolphin demoEnv Netplay (Some 0) (Some demoComm) None initialState)) = Map.empty
   \<and> fst (launchDolphin demoEnv Config (Some 0) (Some demoComm) (Some PLAYBACK) initialState) = Inr ()
   \<and> configPlayback (dolphinInstances
        (snd (launchDolphin demoEnv Config (Some 0) (Some demoComm) (Some PLAYBACK) initialState)))
       = Some \<lparr>dolphinUseType = Config, index = None, dolphin = Some 0, commFilePath = None\<rparr>
   \<and> files (snd (launchDolphin demoEnv Config (Some 0) (Some demoComm) (Some PLAYBACK) initialState)) = Map.empty"
proof -
  have netplayFound: "findDolphinExecutable demoEnv NETPLAY = Inr ''/opt/netplay/dolphin''"
    and playbackFound: "findDolphinExecutable demoEnv PLAYBACK = Inr ''/opt/playback/dolphin''"
    and start: "netplay (dolphinInstances initialState) = None" "files initialState = Map.empty"
      "length (processes initialState) = 0"
    and iso: "isoParams demoEnv = [''-b'', ''-e'', ''/games/melee.iso'']"
    by (simp_all add: demo_defs isoParams_def)
  from C10_payload_ignored[where e = demoEnv and i = "Some 0" and c = demoComm and dt = None
        and s = initialState and v = NETPLAY and x = "''/opt/netplay/dolphin''"
        and f = "\<lambda>c. ''ignored''"]
      netplayFound start(1)
  have 1: "fst (launchDolphin demoEnv Netplay (Some 0) (Some demoComm) None initialState) = Inr ()
     \<and> netplay (dolphinInstances (snd (launchDolphin demoEnv Netplay (Some 0) (Some demoComm) None initialState)))
         = Some \<lparr>dolphinUseType = Netplay, index = None,
                 dolphin = Some (length (processes initialState)), commFilePath = None\<rparr>
     \<and> params (last (processes (snd (launchDolphin demoEnv Netplay (Some 0) (Some demoComm) None initialState))))
         = isoParams demoEnv
     \<and> files (snd (launchDolphin demoEnv Netplay (Some 0) (Some demoComm) None initialState))
         = files initialState"
    by blast
  from C10_payload_ignored[where e = demoEnv and i = "Some 0" and c = demoComm and dt = "Some PLAYBACK"
        and s = initialState and v = PLAYBACK and x = "''/opt/playback/dolphin''"
        and f = "\<lambda>c. ''ignored''"]
      playbackFound
  have 2: "fst (launchDolphin demoEnv Config (Some 0) (Some demoComm) (Some PLAYBACK) initialState) = Inr ()
     \<and> (case PLAYBACK of NETPLAY \<Rightarrow> configNetplay | PLAYBACK \<Rightarrow> configPlayback)
          (dolphinInstances
            (snd (launchDolphin demoEnv Config (Some 0) (Some demoComm) (Some PLAYBACK) initialState)))
         = Some \<lparr>dolphinUseType = Config, index = None,
                 dolphin = Some (length (processes initialState)), commFilePath = None\<rparr>
     \<and> files (snd (launchDolphin demoEnv Config (Some 0) (Some demoComm) (Some PLAYBACK) initialState))
         = files initialState"
    by blast
  from 1 2 start iso show ?thesis by simp
qed

section \<open>Properties of the installation\<close>

lemmas validate_defs = validate_def tryBlock_def isOutOfDate_def lt_def logMessage_def

lemmas install_demo_defs = demoInstallEnv_def demoParse_def emptyInstallState_def

lemmas semver_defs = compareSemVer_def compareMain_def comparePre_def compareNat_def

lemmas download_defs = downloadAndInstall_def installDolphin_def logMessage_def

subsection \<open>The order of versions\<close>

text \<open>
  The comparison is antisymmetric and a version equals itself: comparing two
  versions the other way round gives the opposite sign, so that "not lesser" is
  "greater than or equal".
\<close>

lemma stringLess_asym: "stringLess a b \<Longrightarrow> \<not> stringLess b a"
  by (induction a b rule: stringLess.induct) (auto split: if_splits)

lemma stringLess_total: "a \<noteq> b \<Longrightarrow> stringLess a b \<or> stringLess b a"
proof (induction a b rule: stringLess.induct)
  case (4 a as b bs)
  show ?case
  proof (cases "(of_char a :: nat) = of_char b")
    case True
    then have "a = b" by simp
    with 4 show ?thesis by auto
  next
    case False
    then show ?thesis by auto
  qed
qed auto

lemma compareIdentifiers_flip: "compareIdentifiers b a = - compareIdentifiers a b"
proof (cases a)
  case (Numeric x)
  then show ?thesis by (cases b) (simp_all add: compareNat_def)
next
  case (Alphanumeric x)
  show ?thesis
  proof (cases b)
    case (Numeric y)
    with Alphanumeric show ?thesis by simp
  next
    case (Alphanumeric y)
    show ?thesis
    proof (cases "x = y")
      case True
      with \<open>a = Alphanumeric x\<close> \<open>b = Alphanumeric y\<close> show ?thesis by simp
    next
      case False
      with stringLess_asym[of x y] stringLess_total[of x y]
        \<open>a = Alphanumeric x\<close> \<open>b = Alphanumeric y\<close>
      show ?thesis by (cases "stringLess x y") auto
    qed
  qed
qed

lemma compareIdentifierLists_flip: "compareIdentifierLists bs as = - compareIdentifierLists as bs"
proof (induction as bs rule: compareIdentifierLists.induct)
  case (4 a as b bs)
  show ?case
  proof (cases "a = b")
    case True
    with 4 show ?thesis by simp
  next
    case False
    then have "b \<noteq> a" by simp
    with False compareIdentifiers_flip[of b a] show ?thesis by simp
  qed
qed simp_all

lemma compareMain_flip: "compareMain b a = - compareMain a b"
  by (simp add: compareMain_def compareNat_def)

lemma comparePre_flip: "comparePre b a = - comparePre a b"
  using compareIdentifierLists_flip[of "prerelease b" "prerelease a"]
  by (simp add: comparePre_def)

lemma compareSemVer_flip: "compareSemVer b a = - compareSemVer a b"
  by (simp add: compareSemVer_def compareMain_flip[of b a] comparePre_flip[of b a])

lemma compareSemVer_refl: "compareSemVer a a = 0"
  using compareSemVer_flip[of a a] by simp

subsection \<open>Validating an installation\<close>

text \<open>
  Reading the installed version fails when the executable gives no output, when
  its output is no version, or when the latest version is none.
\<close>

lemma isOutOfDate_unreadable:
  assumes "findInstalledExecutable env = Inr path"
    and "versionStdout env path = None
         \<or> (versionStdout env path = Some out \<and> semverParse env out = None)
         \<or> (versionStdout env path = Some out \<and> semverParse env latestVersion = None)"
  shows "\<exists>err. isOutOfDate env latestVersion = Inl err"
  using assms by (auto simp: isOutOfDate_def lt_def split: option.splits)


text \<open>
  Where the release has a URL for the platform, \<open>downloadAndInstall\<close> hands it to
  the downloader.
\<close>

lemma downloadAndInstall_downloads:
  assumes "downloadUrls info (platformName env) = Some url" and "url \<noteq> []"
  shows "downloads (snd (downloadAndInstall env (Some info) cleanInstall st)) = downloads st @ [url]"
  using assms
  by (simp add: downloadAndInstall_def installDolphin_def logMessage_def Let_def
      split: prod.splits sum.splits)

text \<open>
  Claim C9. The latest release has been fetched. When an executable is found,
  its output and the latest version parse, and the installed version is greater
  than or equal to the latest in the order of versions, \<open>validate\<close> resolves having
  only logged, \<^verbatim>\<open>No update found...\<close> last: nothing is downloaded, installed or
  removed. When the installed version is lesser, \<open>validate\<close> is \<open>downloadAndInstall\<close>
  on the fetched release. When no executable is found, or its version cannot be
  read, the failure is logged and \<open>validate\<close> is \<open>downloadAndInstall\<close> on the fetched
  release as well: the failure itself is not passed on.
\<close>

theorem C9_validate:
  "(fetchLatestVersion env = Inr info \<and> findInstalledExecutable env = Inr path
      \<and> versionStdout env path = Some out \<and> semverParse env out = Some installed
      \<and> semverParse env (version info) = Some latest \<and> 0 \<le> compareSemVer installed latest \<longrightarrow>
      validate env st =
        (Inr (), st\<lparr>logged := logged st @
           [''Found existing '' @ launchTypeName env @ '' Dolphin executable.'',
            ''Checking if we need to update '' @ launchTypeName env @ '' Dolphin'',
            ''No update found...'']\<rparr>))
   \<and> (fetchLatestVersion env = Inr info \<and> findInstalledExecutable env = Inr path
      \<and> versionStdout env path = Some out \<and> semverParse env out = Some installed
      \<and> semverParse env (version info) = Some latest \<and> compareSemVer installed latest < 0 \<longrightarrow>
      validate env st =
        downloadAndInstall env (Some info) None (st\<lparr>logged := logged st @
           [''Found existing '' @ launchTypeName env @ '' Dolphin executable.'',
            ''Checking if we need to update '' @ launchTypeName env @ '' Dolphin'',
            launchTypeName env @ '' Dolphin installation is outdated. Downloading latest...'']\<rparr>))
   \<and> (fetchLatestVersion env = Inr info \<and> findInstalledExecutable env = Inl err \<longrightarrow>
      validate env st =
        downloadAndInstall env (Some info) None (st\<lparr>logged := logged st @
           [''Could not find '' @ launchTypeName env @ '' Dolphin installation. Downloading...'']\<rparr>))
   \<and> (fetchLatestVersion env = Inr info \<and> findInstalledExecutable env = Inr path
      \<and> (versionStdout env path = None
          \<or> (versionStdout env path = Some out \<and> semverParse env out = None)
          \<or> (versionStdout env path = Some out \<and> semverParse env (version info) = None)) \<longrightarrow>
      validate env st =
        downloadAndInstall env (Some info) None (st\<lparr>logged := logged st @
           [''Found existing '' @ launchTypeName env @ '' Dolphin executable.'',
            ''Checking if we need to update '' @ launchTypeName env @ '' Dolphin'',
            ''Could not find '' @ launchTypeName env @ '' Dolphin installation. Downloading...'']\<rparr>))"
proof (intro conjI impI)
  assume "fetchLatestVersion env = Inr info \<and> findInstalledExecutable env = Inr path
      \<and> versionStdout env path = Some out \<and> semverParse env out = Some installed
      \<and> semverParse env (version info) = Some latest \<and> 0 \<le> compareSemVer installed latest"
  then show "validate env st =
        (Inr (), st\<lparr>logged := logged st @
           [''Found existing '' @ launchTypeName env @ '' Dolphin executable.'',
            ''Checking if we need to update '' @ launchTypeName env @ '' Dolphin'',
            ''No update found...'']\<rparr>)"
    by (simp add: validate_defs Let_def)
next
  assume "fetchLatestVersion env = Inr info \<and> findInstalledExecutable env = Inr path
      \<and> versionStdout env path = Some out \<and> semverParse env out = Some installed
      \<and> semverParse env (version info) = Some latest \<and> compareSemVer installed latest < 0"
  then show "validate env st =
        downloadAndInstall env (Some info) None (st\<lparr>logged := logged st @
           [''Found existing '' @ launchTypeName env @ '' Dolphin executable.'',
            ''Checking if we need to update '' @ launchTypeName env @ '' Dolphin'',
            launchTypeName env @ '' Dolphin installation is outdated. Downloading latest...'']\<rparr>)"
    by (simp add: validate_defs Let_def)
next
  assume "fetchLatestVersion env = Inr info \<and> findInstalledExecutable env = Inl err"
  then show "validate env st =
        downloadAndInstall env (Some info) None (st\<lparr>logged := logged st @
           [''Could not find '' @ launchTypeName env @ '' Dolphin installation. Downloading...'']\<rparr>)"
    by (simp add: validate_def tryBlock_def logMessage_def)
next
  assume a: "fetchLatestVersion env = Inr info \<and> findInstalledExecutable env = Inr path
      \<and> (versionStdout env path = None
          \<or> (versionStdout env path = Some out \<and> semverParse env out = None)
          \<or> (versionStdout env path = Some out \<and> semverParse env (version info) = None))"
  then obtain e where "isOutOfDate env (version info) = Inl e"
    using isOutOfDate_unreadable[of env path out "version info"] by blast
  with a show "validate env st =
        downloadAndInstall env (Some info) None (st\<lparr>logged := logged st @
           [''Found existing '' @ launchTypeName env @ '' Dolphin executable.'',
            ''Checking if we need to update '' @ launchTypeName env @ '' Dolphin'',
            ''Could not find '' @ launchTypeName env @ '' Dolphin installation. Downloading...'']\<rparr>)"
    by (simp add: validate_def tryBlock_def logMessage_def Let_def)
qed

text \<open>
  An installation of the latest version, one of a later pre-release, one of an
  earlier version, none at all, and one whose output is no version.
\<close>

theorem C9_validate_witness:
  "validate (demoInstallEnv ''2.3.6'') emptyInstallState
     = (Inr (), \<lparr>logged = [''Found existing netplay Dolphin executable.'',
                           ''Checking if we need to update netplay Dolphin'',
                           ''No update found...''],
                 downloads = [], installs = [], uninstalls = 0\<rparr>)
   \<and> validate (demoInstallEnv ''3.0.0-beta.2'') emptyInstallState
     = (Inr (), \<lparr>logged = [''Found existing netplay Dolphin executable.'',
                           ''Checking if we need to update netplay Dolphin'',
                           ''No update found...''],
                 downloads = [], installs = [], uninstalls = 0\<rparr>)
   \<and> downloads (snd (validate (demoInstallEnv ''2.3.1'') emptyInstallState))
     = [''https://example.org/dolphin.zip'']
   \<and> installs (snd (validate (demoInstallEnv ''2.3.1'') emptyInstallState))
     = [''/data/temp/dolphin.zip'']
   \<and> validate ((demoInstallEnv ''2.3.6'')\<lparr>findInstalledExecutable := Inl (Error ''no executable'')\<rparr>)
        emptyInstallState
     = (Inr (), \<lparr>logged = [''Could not find netplay Dolphin installation. Downloading...'',
                           ''Downloading... 100%'', ''Installing v2.3.6 netplay Dolphin...'',
                           ''Finished v2.3.6 netplay Dolphin install''],
                 downloads = [''https://example.org/dolphin.zip''],
                 installs = [''/data/temp/dolphin.zip''], uninstalls = 0\<rparr>)
   \<and> fst (validate (demoInstallEnv ''Faster Melee'') emptyInstallState) = Inr ()
   \<and> downloads (snd (validate (demoInstallEnv ''Faster Melee'') emptyInstallState))
     = [''https://example.org/dolphin.zip'']"
proof -
  let ?info = "\<lparr>version = ''2.3.6'', downloadUrls = [''linux'' \<mapsto> ''https://example.org/dolphin.zip'']\<rparr>"
  let ?v231 = "\<lparr>major = 2, minor = 3, patch = 1, prerelease = []\<rparr>"
  let ?v236 = "\<lparr>major = 2, minor = 3, patch = 6, prerelease = []\<rparr>"
  let ?v300 = "\<lparr>major = 3, minor = 0, patch = 0, prerelease = [Alphanumeric ''beta'', Numeric 2]\<rparr>"
  let ?noExe = "(demoInstallEnv ''2.3.6'')\<lparr>findInstalledExecutable := Inl (Error ''no executable'')\<rparr>"
  have equal: "fetchLatestVersion (demoInstallEnv ''2.3.6'') = Inr ?info
      \<and> findInstalledExecutable (demoInstallEnv ''2.3.6'') = Inr ''/opt/netplay/dolphin''
      \<and> versionStdout (demoInstallEnv ''2.3.6'') ''/opt/netplay/dolphin'' = Some ''2.3.6''
      \<and> semverParse (demoInstallEnv ''2.3.6'') ''2.3.6'' = Some ?v236
      \<and> semverParse (demoInstallEnv ''2.3.6'') (version ?info) = Some ?v236
      \<and> 0 \<le> compareSemVer ?v236 ?v236"
    by (simp add: install_demo_defs semver_defs)
  have greater: "fetchLatestVersion (demoInstallEnv ''3.0.0-beta.2'') = Inr ?info
      \<and> findInstalledExecutable (demoInstallEnv ''3.0.0-beta.2'') = Inr ''/opt/netplay/dolphin''
      \<and> versionStdout (demoInstallEnv ''3.0.0-beta.2'') ''/opt/netplay/dolphin'' = Some ''3.0.0-beta.2''
      \<and> semverParse (demoInstallEnv ''3.0.0-beta.2'') ''3.0.0-beta.2'' = Some ?v300
      \<and> semverParse (demoInstallEnv ''3.0.0-beta.2'') (version ?info) = Some ?v236
      \<and> 0 \<le> compareSemVer ?v300 ?v236"
    by (simp add: install_demo_defs semver_defs)
  have lesser: "fetchLatestVersion (demoInstallEnv ''2.3.1'') = Inr ?info
      \<and> findInstalledExecutable (demoInstallEnv ''2.3.1'') = Inr ''/opt/netplay/dolphin''
      \<and> versionStdout (demoInstallEnv ''2.3.1'') ''/opt/netplay/dolphin'' = Some ''2.3.1''
      \<and> semverParse (demoInstallEnv ''2.3.1'') ''2.3.1'' = Some ?v231
      \<and> semverParse (demoInstallEnv ''2.3.1'') (version ?info) = Some ?v236
      \<and> compareSemVer ?v231 ?v236 < 0"
    by (simp add: install_demo_defs semver_defs)
  have missing: "fetchLatestVersion ?noExe = Inr ?info
      \<and> findInstalledExecutable ?noExe = Inl (Error ''no executable'')"
    by (simp add: install_demo_defs)
  have unreadable: "fetchLatestVersion (demoInstallEnv ''Faster Melee'') = Inr ?info
      \<and> findInstalledExecutable (demoInstallEnv ''Faster Melee'') = Inr ''/opt/netplay/dolphin''
      \<and> (versionStdout (demoInstallEnv ''Faster Melee'') ''/opt/netplay/dolphin'' = None
          \<or> (versionStdout (demoInstallEnv ''Faster Melee'') ''/opt/netplay/dolphin'' = Some ''Faster Melee''
              \<and> semverParse (demoInstallEnv ''Faster Melee'') ''Faster Melee'' = None)
          \<or> (versionStdout (demoInstallEnv ''Faster Melee'') ''/opt/netplay/dolphin'' = Some ''Faster Melee''
              \<and> semverParse (demoInstallEnv ''Faster Melee'') (version ?info) = None))"
    by (simp add: install_demo_defs)
  from C9_validate[where env = "demoInstallEnv ''2.3.6''" and info = ?info and st = emptyInstallState
        and path = "''/opt/netplay/dolphin''" and out = "''2.3.6''" and installed = ?v236 and latest = ?v236]
      equal
  have 1: "validate (demoInstallEnv ''2.3.6'') emptyInstallState
     = (Inr (), \<lparr>logged = [''Found existing netplay Dolphin executable.'',
                           ''Checking if we need to update netplay Dolphin'',
                           ''No update found...''],
                 downloads = [], installs = [], uninstalls = 0\<rparr>)"
    by (simp add: install_demo_defs)
  from C9_validate[where env = "demoInstallEnv ''3.0.0-beta.2''" and info = ?info and st = emptyInstallState
        and path = "''/opt/netplay/dolphin''" and out = "''3.0.0-beta.2''" and installed = ?v300
        and latest = ?v236] greater
  have 2: "validate (demoInstallEnv ''3.0.0-beta.2'') emptyInstallState
     = (Inr (), \<lparr>logged = [''Found existing netplay Dolphin executable.'',
                           ''Checking if we need to update netplay Dolphin'',
                           ''No update found...''],
                 downloads = [], installs = [], uninstalls = 0\<rparr>)"
    by (simp add: install_demo_defs)
  from C9_validate[where env = "demoInstallEnv ''2.3.1''" and info = ?info and st = emptyInstallState
        and path = "''/opt/netplay/dolphin''" and out = "''2.3.1''" and installed = ?v231
        and latest = ?v236] lesser
  have 3: "downloads (snd (validate (demoInstallEnv ''2.3.1'') emptyInstallState))
       = [''https://example.org/dolphin.zip'']
     \<and> installs (snd (validate (demoInstallEnv ''2.3.1'') emptyInstallState))
       = [''/data/temp/dolphin.zip'']"
    by (simp add: install_demo_defs download_defs)
  from C9_validate[where env = ?noExe and info = ?info and st = emptyInstallState
        and err = "Error ''no executable''"] missing
  have 4: "validate ?noExe emptyInstallState
     = (Inr (), \<lparr>logged = [''Could not find netplay Dolphin installation. Downloading...'',
                           ''Downloading... 100%'', ''Installing v2.3.6 netplay Dolphin...'',
                           ''Finished v2.3.6 netplay Dolphin install''],
                 downloads = [''https://example.org/dolphin.zip''],
                 installs = [''/data/temp/dolphin.zip''], uninstalls = 0\<rparr>)"
    by (simp add: install_demo_defs download_defs)
  from C9_validate[where env = "demoInstallEnv ''Faster Melee''" and info = ?info and st = emptyInstallState
        and path = "''/opt/netplay/dolphin''" and out = "''Faster Melee''"] unreadable
  have 5: "fst (validate (demoInstallEnv ''Faster Melee'') emptyInstallState) = Inr ()
     \<and> downloads (snd (validate (demoInstallEnv ''Faster Melee'') emptyInstallState))
       = [''https://example.org/dolphin.zip'']"
    by (simp add: install_demo_defs download_defs)
  from 1 2 3 4 5 show ?thesis by simp
qed

end
